theory Spec2Isabelle
  imports Main
begin

section \<open>JavaScript values, thrown errors and promises\<close>

text \<open>
  The handler of \<^verbatim>\<open>square-payment-handler.ts\<close> reads untyped metadata, tests values for
  truthiness, renders values inside template literals and awaits promises. These are the
  parts of the language the embedding writes out. Numbers are integers (amounts are minor
  units, identifiers and clock readings are non-negative), so \<^verbatim>\<open>NaN\<close> does not occur.
  Log lines (\<^verbatim>\<open>Logger.warn/info/error\<close>) are not part of any result and are left out.
\<close>

datatype jsval = JUndefined | JNull | JBool bool | JNum int | JStr string | JObj

fun truthy :: "jsval \<Rightarrow> bool" where
  "truthy JUndefined = False"
| "truthy JNull = False"
| "truthy (JBool b) = b"
| "truthy (JNum n) = (n \<noteq> 0)"
| "truthy (JStr s) = (s \<noteq> [])"
| "truthy JObj = True"

text \<open>\<^verbatim>\<open>a || b\<close> on values, and on an optional string with a string default.\<close>

definition js_or :: "jsval \<Rightarrow> jsval \<Rightarrow> jsval" where
  "js_or a b = (if truthy a then a else b)"

definition or_str :: "string option \<Rightarrow> string \<Rightarrow> string" where
  "or_str x d = (case x of None \<Rightarrow> d | Some s \<Rightarrow> if s = [] then d else s)"

text \<open>Property access \<^verbatim>\<open>metadata.k\<close> on an object: a missing key reads \<^verbatim>\<open>undefined\<close>.\<close>

definition get_prop :: "(string \<rightharpoonup> jsval) \<Rightarrow> string \<Rightarrow> jsval" where
  "get_prop obj k = (case obj k of None \<Rightarrow> JUndefined | Some v \<Rightarrow> v)"

text \<open>An optional string field stored into an object literal.\<close>

definition of_opt :: "string option \<Rightarrow> jsval" where
  "of_opt x = (case x of None \<Rightarrow> JUndefined | Some s \<Rightarrow> JStr s)"

text \<open>
  A field that may be missing, \<^verbatim>\<open>null\<close> or a string, stored into an object literal
  and rendered in a template literal.
\<close>

datatype nullable = Undefined | Null | Defined string

fun of_nullable :: "nullable \<Rightarrow> jsval" where
  "of_nullable Undefined = JUndefined"
| "of_nullable Null = JNull"
| "of_nullable (Defined s) = JStr s"

fun str_nullable :: "nullable \<Rightarrow> string" where
  "str_nullable Undefined = ''undefined''"
| "str_nullable Null = ''null''"
| "str_nullable (Defined s) = s"

text \<open>Template literal rendering: \<^verbatim>\<open>${x}\<close> of an optional string, a number, an id.\<close>

definition str_opt :: "string option \<Rightarrow> string" where
  "str_opt x = (case x of None \<Rightarrow> ''undefined'' | Some s \<Rightarrow> s)"

definition digit_char :: "nat \<Rightarrow> char" where
  "digit_char d = ''0123456789'' ! d"

fun show_nat :: "nat \<Rightarrow> string" where
  "show_nat n = (if n < 10 then [digit_char n]
                 else show_nat (n div 10) @ [digit_char (n mod 10)])"

declare show_nat.simps [simp del]

text \<open>A platform id is \<^verbatim>\<open>string | number\<close>.\<close>

datatype ident = IdNum nat | IdStr string

fun show_ident :: "ident \<Rightarrow> string" where
  "show_ident (IdNum n) = show_nat n"
| "show_ident (IdStr s) = s"

text \<open>
  A thrown value is an error object; \<^verbatim>\<open>error.message\<close> may be missing on a foreign
  object, which is what the \<^verbatim>\<open>error.message || '...'\<close> fallbacks of the handler guard.
\<close>

datatype thrown = Thrown (message: "string option")

definition new_Error :: "string \<Rightarrow> thrown" where
  "new_Error msg = Thrown (Some msg)"

text \<open>
  A promise is described by what it eventually does, and when: the time is in
  milliseconds counted from the moment the wrapper below is entered. \<open>Hangs\<close> is a
  promise that never settles.
\<close>

datatype 'a promise = Fulfils nat 'a | Rejects nat thrown | Hangs

fun settle_time :: "'a promise \<Rightarrow> nat option" where
  "settle_time (Fulfils t v) = Some t"
| "settle_time (Rejects t e) = Some t"
| "settle_time Hangs = None"


text \<open>
  \<^verbatim>\<open>Promise.race([p, q])\<close>: the promise that settles first decides, and of two that
  settle at the same time the one listed first does. So a promise that settles in the
  very millisecond a timer listed after it fires is still delivered.
\<close>

definition Promise_race :: "'a promise \<Rightarrow> 'a promise \<Rightarrow> 'a promise" where
  "Promise_race p q =
     (case settle_time p of
        None \<Rightarrow> q
      | Some a \<Rightarrow> (case settle_time q of
                     None \<Rightarrow> p
                   | Some b \<Rightarrow> if a \<le> b then p else q))"

text \<open>
  The delay \<^verbatim>\<open>setTimeout(f, ms)\<close> really waits: a delay below 1 or above 2147483647
  is set to 1.
\<close>

definition setTimeout_delay :: "int \<Rightarrow> nat" where
  "setTimeout_delay ms = (if ms < 1 \<or> 2147483647 < ms then 1 else nat ms)"

text \<open>\<^verbatim>\<open>withTimeout(promise, timeoutMs = 30000, errorMessage = 'Request timeout')\<close>.\<close>

definition withTimeout :: "'a promise \<Rightarrow> int option \<Rightarrow> string option \<Rightarrow> 'a promise" where
  "withTimeout promise timeoutMs errorMessage =
     (let ms = (case timeoutMs of None \<Rightarrow> 30000 | Some n \<Rightarrow> n);
          msg = (case errorMessage of None \<Rightarrow> ''Request timeout'' | Some m \<Rightarrow> m);
          timeout = Rejects (setTimeout_delay ms) (new_Error msg)
      in Promise_race promise timeout)"

text \<open>\<^verbatim>\<open>await p\<close>: the value, a throw, or no return at all (\<open>None\<close>).\<close>

fun await :: "'a promise \<Rightarrow> (thrown + 'a) option" where
  "await (Fulfils t v) = Some (Inr v)"
| "await (Rejects t e) = Some (Inl e)"
| "await Hangs = None"

section \<open>Module state: credentials and the cached client\<close>

record SquarePaymentHandlerOptions =
  accessToken :: string
  environment :: string
  locationId :: string

datatype SquareEnvironment = Production | Sandbox

text \<open>
  A client object: \<open>client_ref\<close> is its identity (which \<^verbatim>\<open>new SquareClient\<close> made it),
  the other two fields are the constructor's arguments.
\<close>

record SquareClient =
  client_ref :: nat
  token :: string
  client_environment :: SquareEnvironment

text \<open>
  The two module-level variables, and the number of clients constructed so far, which
  gives each new object its identity.
\<close>

record module_state =
  squareOptions :: "SquarePaymentHandlerOptions option"
  squareClient :: "SquareClient option"
  constructed :: nat

definition initial_state :: module_state where
  "initial_state = \<lparr>squareOptions = None, squareClient = None, constructed = 0\<rparr>"

definition setSquareOptions :: "SquarePaymentHandlerOptions \<Rightarrow> module_state \<Rightarrow> module_state" where
  "setSquareOptions options st = st\<lparr>squareOptions := Some options, squareClient := None\<rparr>"

definition not_configured :: string where
  "not_configured = ''Square options not configured - call SquarePlugin.init() first''"

definition getSquareOptions :: "module_state \<Rightarrow> thrown + SquarePaymentHandlerOptions" where
  "getSquareOptions st =
     (case squareOptions st of
        None \<Rightarrow> Inl (new_Error not_configured)
      | Some options \<Rightarrow> Inr options)"

definition getSquareClient :: "module_state \<Rightarrow> thrown + (SquareClient \<times> module_state)" where
  "getSquareClient st =
     (case squareClient st of
        Some client \<Rightarrow> Inr (client, st)
      | None \<Rightarrow>
          (case getSquareOptions st of
             Inl e \<Rightarrow> Inl e
           | Inr options \<Rightarrow>
               let client = \<lparr>client_ref = constructed st,
                             token = accessToken options,
                             client_environment =
                               (if environment options = ''production''
                                then Production else Sandbox)\<rparr>
               in Inr (client, st\<lparr>squareClient := Some client,
                                 constructed := Suc (constructed st)\<rparr>)))"

text \<open>\<^verbatim>\<open>SquarePlugin.init(options)\<close> of \<^verbatim>\<open>square.plugin.ts\<close> stores the options.\<close>

definition SquarePlugin_init :: "SquarePaymentHandlerOptions \<Rightarrow> module_state \<Rightarrow> module_state" where
  "SquarePlugin_init options st = setSquareOptions options st"

text \<open>The accessor called \<open>n\<close> times in a row: what each call gave, and the final state.\<close>

fun getSquareClient_n :: "nat \<Rightarrow> module_state \<Rightarrow> (thrown + SquareClient) list \<times> module_state" where
  "getSquareClient_n 0 st = ([], st)"
| "getSquareClient_n (Suc n) st =
     (case getSquareClient st of
        Inl e \<Rightarrow> (case getSquareClient_n n st of (rs, st') \<Rightarrow> (Inl e # rs, st'))
      | Inr (c, st1) \<Rightarrow> (case getSquareClient_n n st1 of (rs, st') \<Rightarrow> (Inr c # rs, st')))"

section \<open>Platform and processor data\<close>

text \<open>What the handler reads of the platform's order, payment and refund input.\<close>

record Order =
  code :: string
  total :: int
  currencyCode :: string

record Payment =
  payment_id :: ident
  transactionId :: "string option"

record RefundOrderInput =
  reason :: "string option"

text \<open>
  The processor's payment and refund objects, every field optional as in its SDK; a
  refund's status may also be \<^verbatim>\<open>null\<close>.
\<close>

record SquarePayment =
  pay_id :: "string option"
  pay_status :: "string option"
  pay_receiptUrl :: "string option"
  pay_orderId :: "string option"

record SquareRefund =
  ref_id :: "string option"
  ref_status :: nullable

record PaymentResponse =
  payment :: "SquarePayment option"

record RefundResponse =
  refund :: "SquareRefund option"

text \<open>The three request bodies the handler builds.\<close>

record Money =
  amount :: int
  currency :: string

record CreatePaymentRequest =
  sourceId :: jsval
  idempotencyKey :: string
  amountMoney :: Money
  req_locationId :: string
  referenceId :: string
  req_note :: string
  autocomplete :: bool

record CompletePaymentRequest =
  paymentId :: string

record RefundPaymentRequest =
  refund_idempotencyKey :: string
  refund_paymentId :: string
  refund_amountMoney :: Money
  refund_reason :: string

text \<open>
  The processor's client library is outside the repository: the three endpoints the
  handler calls are parameters, each giving the promise the call returns.
\<close>

record SquareApi =
  payments_create :: "SquareClient \<Rightarrow> CreatePaymentRequest \<Rightarrow> PaymentResponse promise"
  payments_complete :: "SquareClient \<Rightarrow> CompletePaymentRequest \<Rightarrow> PaymentResponse promise"
  refunds_refundPayment :: "SquareClient \<Rightarrow> RefundPaymentRequest \<Rightarrow> RefundResponse promise"

datatype api_call =
    PaymentsCreate SquareClient CreatePaymentRequest
  | PaymentsComplete SquareClient CompletePaymentRequest
  | RefundsRefundPayment SquareClient RefundPaymentRequest

text \<open>
  The clock: \<open>dateNow\<close> is what \<^verbatim>\<open>Date.now()\<close> returns where the idempotency key is
  built, \<open>isoNow\<close> what \<^verbatim>\<open>new Date().toISOString()\<close> returns where a result is built.
\<close>

record clock =
  dateNow :: nat
  isoNow :: string

text \<open>The platform's result shapes; an optional field that is not set is \<open>None\<close>.\<close>

datatype payment_state = Authorized | Declined

datatype refund_state = Settled | Failed

type_synonym metadata = "(string \<times> jsval) list"

record CreatePaymentResult =
  cp_amount :: int
  cp_state :: payment_state
  cp_transactionId :: "string option"
  cp_errorMessage :: "string option"
  cp_metadata :: metadata

record SettlePaymentResult =
  sp_success :: bool
  sp_errorMessage :: "string option"
  sp_metadata :: "metadata option"

record CreateRefundResult =
  rf_state :: refund_state
  rf_transactionId :: "string option"
  rf_metadata :: metadata

text \<open>
  One run of a handler method: what it gave back to the host (a result, or a throw that
  left the method), the module state afterwards, and the processor calls it made.
\<close>

record 'r outcome =
  returned :: "thrown + 'r"
  state_after :: module_state
  calls :: "api_call list"

definition throws_to_host :: "'r outcome option \<Rightarrow> bool" where
  "throws_to_host out = (case out of None \<Rightarrow> False | Some r \<Rightarrow> isl (returned r))"

section \<open>The payment handler\<close>

subsection \<open>createPayment\<close>

text \<open>The object literal passed to \<^verbatim>\<open>client.payments.create\<close>.\<close>

definition createPayment_request ::
  "jsval \<Rightarrow> string \<Rightarrow> int \<Rightarrow> Order \<Rightarrow> SquarePaymentHandlerOptions \<Rightarrow> CreatePaymentRequest" where
  "createPayment_request src key amt order options =
     \<lparr>sourceId = src, idempotencyKey = key,
      amountMoney = \<lparr>amount = amt, currency = currencyCode order\<rparr>,
      req_locationId = locationId options,
      referenceId = code order,
      req_note = ''Order '' @ code order,
      autocomplete = False\<rparr>"

text \<open>The \<^verbatim>\<open>try\<close> block of \<^verbatim>\<open>createPayment\<close>; \<open>Inl\<close> is a throw inside it.\<close>

definition createPayment_try ::
  "SquareApi \<Rightarrow> clock \<Rightarrow> module_state \<Rightarrow> Order \<Rightarrow> int \<Rightarrow> (string \<rightharpoonup> jsval)
     \<Rightarrow> CreatePaymentResult outcome option" where
  "createPayment_try api clk st order amt metadata =
     (case getSquareClient st of
        Inl e \<Rightarrow> Some \<lparr>returned = Inl e, state_after = st, calls = []\<rparr>
      | Inr (client, st1) \<Rightarrow>
          let src = js_or (get_prop metadata ''sourceId'') (get_prop metadata ''token'') in
          if \<not> truthy src then
            Some \<lparr>returned = Inr \<lparr>cp_amount = total order, cp_state = Declined,
                                  cp_transactionId = None,
                                  cp_errorMessage =
                                    Some ''Missing Square payment token (sourceId) from frontend'',
                                  cp_metadata = []\<rparr>,
                  state_after = st1, calls = []\<rparr>
          else
            let key = code order @ ''-create-'' @ show_nat (dateNow clk) in
            (case getSquareOptions st1 of
               Inl e \<Rightarrow> Some \<lparr>returned = Inl e, state_after = st1, calls = []\<rparr>
             | Inr options \<Rightarrow>
                 let req = createPayment_request src key amt order options
                 in (case await (withTimeout (payments_create api client req) (Some 30000)
                                   (Some ''Square payment creation timeout'')) of
                       None \<Rightarrow> None
                     | Some (Inl e) \<Rightarrow>
                         Some \<lparr>returned = Inl e, state_after = st1,
                               calls = [PaymentsCreate client req]\<rparr>
                     | Some (Inr response) \<Rightarrow>
                         (case payment response of
                            None \<Rightarrow>
                              Some \<lparr>returned = Inr \<lparr>cp_amount = total order, cp_state = Declined,
                                      cp_transactionId = None,
                                      cp_errorMessage = Some
                                        ''Square payment creation failed - no payment object returned'',
                                      cp_metadata = []\<rparr>,
                                    state_after = st1, calls = [PaymentsCreate client req]\<rparr>
                          | Some p \<Rightarrow>
                              Some \<lparr>returned = Inr \<lparr>cp_amount = total order,
                                      cp_state = Authorized,
                                      cp_transactionId = Some (or_str (pay_id p) []),
                                      cp_errorMessage = None,
                                      cp_metadata =
                                        [(''squarePaymentId'', of_opt (pay_id p)),
                                         (''status'', of_opt (pay_status p)),
                                         (''receiptUrl'', of_opt (pay_receiptUrl p)),
                                         (''orderId'', of_opt (pay_orderId p))]\<rparr>,
                                    state_after = st1, calls = [PaymentsCreate client req]\<rparr>))))"

text \<open>The \<^verbatim>\<open>catch\<close> block of \<^verbatim>\<open>createPayment\<close>.\<close>

definition createPayment_catch :: "Order \<Rightarrow> thrown \<Rightarrow> CreatePaymentResult" where
  "createPayment_catch order error =
     \<lparr>cp_amount = total order, cp_state = Declined, cp_transactionId = None,
      cp_errorMessage = Some (or_str (message error) ''Square payment creation failed''),
      cp_metadata = [(''error'', of_opt (message error))]\<rparr>"

definition createPayment ::
  "SquareApi \<Rightarrow> clock \<Rightarrow> module_state \<Rightarrow> Order \<Rightarrow> int \<Rightarrow> (string \<rightharpoonup> jsval)
     \<Rightarrow> CreatePaymentResult outcome option" where
  "createPayment api clk st order amt metadata =
     (case createPayment_try api clk st order amt metadata of
        None \<Rightarrow> None
      | Some out \<Rightarrow>
          (case returned out of
             Inl error \<Rightarrow> Some (out\<lparr>returned := Inr (createPayment_catch order error)\<rparr>)
           | Inr r \<Rightarrow> Some out))"

subsection \<open>settlePayment\<close>

text \<open>
  \<^verbatim>\<open>payment.transactionId\<close> is tested for truthiness: a missing id and the empty string
  both take the early return.
\<close>

definition settlePayment_try ::
  "SquareApi \<Rightarrow> clock \<Rightarrow> module_state \<Rightarrow> Order \<Rightarrow> Payment
     \<Rightarrow> SettlePaymentResult outcome option" where
  "settlePayment_try api clk st order pay =
     (case getSquareClient st of
        Inl e \<Rightarrow> Some \<lparr>returned = Inl e, state_after = st, calls = []\<rparr>
      | Inr (client, st1) \<Rightarrow>
          let squarePaymentId = or_str (transactionId pay) [] in
          if squarePaymentId = [] then
            Some \<lparr>returned = Inr \<lparr>sp_success = False,
                                  sp_errorMessage =
                                    Some ''Missing Square payment ID - cannot settle payment'',
                                  sp_metadata = None\<rparr>,
                  state_after = st1, calls = []\<rparr>
          else
            let req = \<lparr>paymentId = squarePaymentId\<rparr> in
            (case await (withTimeout (payments_complete api client req) (Some 30000)
                           (Some ''Square payment settlement timeout'')) of
               None \<Rightarrow> None
             | Some (Inl e) \<Rightarrow>
                 Some \<lparr>returned = Inl e, state_after = st1,
                       calls = [PaymentsComplete client req]\<rparr>
             | Some (Inr response) \<Rightarrow>
                 let completedPayment = payment response;
                     status = Option.bind completedPayment pay_status
                 in if completedPayment \<noteq> None \<and> status = Some ''COMPLETED'' then
                      Some \<lparr>returned = Inr \<lparr>sp_success = True, sp_errorMessage = None,
                              sp_metadata = Some
                                [(''squarePaymentId'',
                                    of_opt (Option.bind completedPayment pay_id)),
                                 (''status'', of_opt status),
                                 (''completedAt'', JStr (isoNow clk))]\<rparr>,
                            state_after = st1, calls = [PaymentsComplete client req]\<rparr>
                    else
                      Some \<lparr>returned = Inr \<lparr>sp_success = False,
                              sp_errorMessage = Some
                                (''Square payment not completed. Status: '' @ str_opt status),
                              sp_metadata = Some [(''status'', of_opt status)]\<rparr>,
                            state_after = st1, calls = [PaymentsComplete client req]\<rparr>))"

definition settlePayment_catch :: "thrown \<Rightarrow> SettlePaymentResult" where
  "settlePayment_catch error =
     \<lparr>sp_success = False,
      sp_errorMessage = Some (or_str (message error) ''Failed to settle Square payment''),
      sp_metadata = Some [(''error'', of_opt (message error))]\<rparr>"

definition settlePayment ::
  "SquareApi \<Rightarrow> clock \<Rightarrow> module_state \<Rightarrow> Order \<Rightarrow> Payment
     \<Rightarrow> SettlePaymentResult outcome option" where
  "settlePayment api clk st order pay =
     (case settlePayment_try api clk st order pay of
        None \<Rightarrow> None
      | Some out \<Rightarrow>
          (case returned out of
             Inl error \<Rightarrow> Some (out\<lparr>returned := Inr (settlePayment_catch error)\<rparr>)
           | Inr r \<Rightarrow> Some out))"

subsection \<open>createRefund\<close>

text \<open>The object literal passed to \<^verbatim>\<open>client.refunds.refundPayment\<close>.\<close>

definition createRefund_request ::
  "string \<Rightarrow> string \<Rightarrow> int \<Rightarrow> Order \<Rightarrow> RefundOrderInput \<Rightarrow> RefundPaymentRequest" where
  "createRefund_request key squarePaymentId amt order input =
     \<lparr>refund_idempotencyKey = key,
      refund_paymentId = squarePaymentId,
      refund_amountMoney = \<lparr>amount = amt, currency = currencyCode order\<rparr>,
      refund_reason = or_str (reason input) ''Customer refund request''\<rparr>"

definition createRefund_try ::
  "SquareApi \<Rightarrow> clock \<Rightarrow> module_state \<Rightarrow> RefundOrderInput \<Rightarrow> int \<Rightarrow> Order \<Rightarrow> Payment
     \<Rightarrow> CreateRefundResult outcome option" where
  "createRefund_try api clk st input amt order pay =
     (case getSquareClient st of
        Inl e \<Rightarrow> Some \<lparr>returned = Inl e, state_after = st, calls = []\<rparr>
      | Inr (client, st1) \<Rightarrow>
          let squarePaymentId = or_str (transactionId pay) [] in
          if squarePaymentId = [] then
            Some \<lparr>returned = Inr \<lparr>rf_state = Failed, rf_transactionId = None,
                                  rf_metadata =
                                    [(''error'', JStr ''Missing Square payment ID'')]\<rparr>,
                  state_after = st1, calls = []\<rparr>
          else
            let key = code order @ ''-refund-'' @ show_ident (payment_id pay) @ ''-''
                        @ show_nat (dateNow clk);
                req = createRefund_request key squarePaymentId amt order input
            in (case await (withTimeout (refunds_refundPayment api client req) (Some 30000)
                              (Some ''Square refund timeout'')) of
                  None \<Rightarrow> None
                | Some (Inl e) \<Rightarrow>
                    Some \<lparr>returned = Inl e, state_after = st1,
                          calls = [RefundsRefundPayment client req]\<rparr>
                | Some (Inr response) \<Rightarrow>
                    let rfd = refund response;
                        status = (case rfd of None \<Rightarrow> Undefined | Some r \<Rightarrow> ref_status r)
                    in if rfd \<noteq> None \<and>
                          (status = Defined ''COMPLETED'' \<or> status = Defined ''PENDING'')
                       then
                         Some \<lparr>returned = Inr \<lparr>rf_state = Settled,
                                 rf_transactionId = Some (or_str (Option.bind rfd ref_id) []),
                                 rf_metadata =
                                   [(''squareRefundId'', of_opt (Option.bind rfd ref_id)),
                                    (''status'', of_nullable status),
                                    (''refundedAt'', JStr (isoNow clk))]\<rparr>,
                               state_after = st1, calls = [RefundsRefundPayment client req]\<rparr>
                       else
                         Some \<lparr>returned = Inr \<lparr>rf_state = Failed, rf_transactionId = None,
                                 rf_metadata =
                                   [(''error'',
                                       JStr (''Refund failed with status: '' @ str_nullable status))]\<rparr>,
                               state_after = st1, calls = [RefundsRefundPayment client req]\<rparr>))"

definition createRefund_catch :: "thrown \<Rightarrow> CreateRefundResult" where
  "createRefund_catch error =
     \<lparr>rf_state = Failed, rf_transactionId = None,
      rf_metadata = [(''error'', JStr (or_str (message error) ''Refund failed''))]\<rparr>"

definition createRefund ::
  "SquareApi \<Rightarrow> clock \<Rightarrow> module_state \<Rightarrow> RefundOrderInput \<Rightarrow> int \<Rightarrow> Order \<Rightarrow> Payment
     \<Rightarrow> CreateRefundResult outcome option" where
  "createRefund api clk st input amt order pay =
     (case createRefund_try api clk st input amt order pay of
        None \<Rightarrow> None
      | Some out \<Rightarrow>
          (case returned out of
             Inl error \<Rightarrow> Some (out\<lparr>returned := Inr (createRefund_catch error)\<rparr>)
           | Inr r \<Rightarrow> Some out))"

section \<open>A concrete scenario\<close>

text \<open>
  The inputs of the specification's scenarios, and three processors: one that answers
  each call at once, one whose calls never settle, one that rejects each call.
\<close>

definition opts0 :: SquarePaymentHandlerOptions where
  "opts0 = \<lparr>accessToken = ''tok'', environment = ''sandbox'', locationId = ''L1''\<rparr>"

definition opts1 :: SquarePaymentHandlerOptions where
  "opts1 = \<lparr>accessToken = ''live-tok'', environment = ''production'', locationId = ''L2''\<rparr>"

definition order0 :: Order where
  "order0 = \<lparr>code = ''ORD1'', total = 1000, currencyCode = ''USD''\<rparr>"

definition payment0 :: Payment where
  "payment0 = \<lparr>payment_id = IdNum 7, transactionId = Some ''pay_1''\<rparr>"

definition payment_no_tx :: Payment where
  "payment_no_tx = \<lparr>payment_id = IdNum 7, transactionId = None\<rparr>"

definition input0 :: RefundOrderInput where
  "input0 = \<lparr>reason = Some ''damaged''\<rparr>"

definition clock0 :: clock where
  "clock0 = \<lparr>dateNow = 1759190400000, isoNow = ''2025-09-30T00:00:00.000Z''\<rparr>"

definition clock1 :: clock where
  "clock1 = \<lparr>dateNow = 1759190400250, isoNow = ''2025-09-30T00:00:00.250Z''\<rparr>"

definition stub_api :: SquareApi where
  "stub_api =
     \<lparr>payments_create = (\<lambda>c r. Fulfils 120
        \<lparr>payment = Some \<lparr>pay_id = Some ''pay_1'', pay_status = Some ''AUTHORIZED'',
                          pay_receiptUrl = None, pay_orderId = None\<rparr>\<rparr>),
      payments_complete = (\<lambda>c r. Fulfils 80
        \<lparr>payment = Some \<lparr>pay_id = Some ''pay_1'', pay_status = Some ''COMPLETED'',
                          pay_receiptUrl = None, pay_orderId = None\<rparr>\<rparr>),
      refunds_refundPayment = (\<lambda>c r. Fulfils 95
        \<lparr>refund = Some \<lparr>ref_id = Some ''ref_1'', ref_status = Defined ''PENDING''\<rparr>\<rparr>)\<rparr>"



definition ready_state :: module_state where
  "ready_state = SquarePlugin_init opts0 initial_state"

text \<open>The client the first access constructs in \<open>ready_state\<close>, and the state it leaves.\<close>

definition client0 :: SquareClient where
  "client0 = \<lparr>client_ref = 0, token = ''tok'', client_environment = Sandbox\<rparr>"

definition cached_state :: module_state where
  "cached_state = \<lparr>squareOptions = Some opts0, squareClient = Some client0, constructed = 1\<rparr>"

text \<open>The request and the result of the scenario's \<open>createPayment\<close> call at a given clock.\<close>

definition request_at :: "clock \<Rightarrow> CreatePaymentRequest" where
  "request_at clk =
     createPayment_request (JStr ''cnon:card'')
       (code order0 @ ''-create-'' @ show_nat (dateNow clk)) 1000 order0 opts0"

definition authorized0 :: CreatePaymentResult where
  "authorized0 =
     \<lparr>cp_amount = 1000, cp_state = Authorized, cp_transactionId = Some ''pay_1'',
      cp_errorMessage = None,
      cp_metadata = [(''squarePaymentId'', JStr ''pay_1''), (''status'', JStr ''AUTHORIZED''),
                     (''receiptUrl'', JUndefined), (''orderId'', JUndefined)]\<rparr>"

text \<open>The request and the result of the scenario's \<open>createRefund\<close> call at a given clock.\<close>

definition refund_request_at :: "clock \<Rightarrow> RefundPaymentRequest" where
  "refund_request_at clk =
     createRefund_request
       (code order0 @ ''-refund-'' @ show_ident (payment_id payment0) @ ''-''
          @ show_nat (dateNow clk)) ''pay_1'' 500 order0 input0"

definition settled_at :: "clock \<Rightarrow> CreateRefundResult" where
  "settled_at clk =
     \<lparr>rf_state = Settled, rf_transactionId = Some ''ref_1'',
      rf_metadata = [(''squareRefundId'', JStr ''ref_1''), (''status'', JStr ''PENDING''),
                     (''refundedAt'', JStr (isoNow clk))]\<rparr>"



section \<open>Basic facts about the accessor and the timeout wrapper\<close>

lemma getSquareClient_unconfigured:
  "squareOptions st = None \<Longrightarrow> squareClient st = None \<Longrightarrow>
   getSquareClient st = Inl (new_Error not_configured)"
  by (simp add: getSquareClient_def getSquareOptions_def)

lemma getSquareClient_options:
  "getSquareClient st = Inr (c, st1) \<Longrightarrow> squareOptions st1 = squareOptions st"
  by (auto simp: getSquareClient_def getSquareOptions_def Let_def split: option.splits sum.splits)

lemma getSquareClient_throws:
  "getSquareClient st = Inl e \<Longrightarrow> e = new_Error not_configured"
  by (auto simp: getSquareClient_def getSquareOptions_def Let_def split: option.splits sum.splits)

text \<open>What the handler sees when it awaits a call under the wrapper; it never waits forever.\<close>

lemma await_withTimeout:
  "await (withTimeout p (Some d) (Some m)) =
     Some (case p of
             Fulfils t v \<Rightarrow> if t \<le> setTimeout_delay d then Inr v else Inl (new_Error m)
           | Rejects t e \<Rightarrow> if t \<le> setTimeout_delay d then Inl e else Inl (new_Error m)
           | Hangs \<Rightarrow> Inl (new_Error m))"
  by (cases p) (simp_all add: withTimeout_def Promise_race_def)

lemma setTimeout_delay_30000 [simp]: "setTimeout_delay 30000 = 30000"
  by (simp add: setTimeout_delay_def)

lemma not_configured_nonempty: "or_str (Some not_configured) d = not_configured"
  by (simp add: or_str_def not_configured_def)

section \<open>Calls before initialisation\<close>

text \<open>
  Claim C1, as amended. Before any credentials are stored (both module variables are
  still \<open>null\<close>) the accessor throws the configuration error, but it does so inside the
  \<^verbatim>\<open>try\<close> block of each operation: the operation's own \<^verbatim>\<open>catch\<close> turns it into a
  structured failure (\<open>Declined\<close>, \<open>success = false\<close>, \<open>Failed\<close>) that carries the
  configuration message. Nothing is thrown to the host, the state is unchanged and no
  processor call is made.
\<close>

theorem unconfigured_calls_return_failure:
  assumes "squareOptions st = None" and "squareClient st = None"
  shows "getSquareClient st = Inl (new_Error not_configured) \<and>
    createPayment api clk st order amt md =
      Some \<lparr>returned = Inr \<lparr>cp_amount = total order, cp_state = Declined,
                cp_transactionId = None, cp_errorMessage = Some not_configured,
                cp_metadata = [(''error'', JStr not_configured)]\<rparr>,
            state_after = st, calls = []\<rparr> \<and>
    settlePayment api clk st order pay =
      Some \<lparr>returned = Inr \<lparr>sp_success = False, sp_errorMessage = Some not_configured,
                sp_metadata = Some [(''error'', JStr not_configured)]\<rparr>,
            state_after = st, calls = []\<rparr> \<and>
    createRefund api clk st input amt' order pay =
      Some \<lparr>returned = Inr \<lparr>rf_state = Failed, rf_transactionId = None,
                rf_metadata = [(''error'', JStr not_configured)]\<rparr>,
            state_after = st, calls = []\<rparr>"
  using getSquareClient_unconfigured [OF assms]
  by (simp add: createPayment_def createPayment_try_def createPayment_catch_def
        settlePayment_def settlePayment_try_def settlePayment_catch_def
        createRefund_def createRefund_try_def createRefund_catch_def
        new_Error_def not_configured_nonempty of_opt_def)

theorem unconfigured_calls_return_failure_witness:
  "createPayment stub_api clock0 initial_state order0 1000 [''token'' \<mapsto> JStr ''cnon:card''] =
      Some \<lparr>returned = Inr \<lparr>cp_amount = 1000, cp_state = Declined,
                cp_transactionId = None, cp_errorMessage = Some not_configured,
                cp_metadata = [(''error'', JStr not_configured)]\<rparr>,
            state_after = initial_state, calls = []\<rparr> \<and>
   settlePayment stub_api clock0 initial_state order0 payment0 =
      Some \<lparr>returned = Inr \<lparr>sp_success = False, sp_errorMessage = Some not_configured,
                sp_metadata = Some [(''error'', JStr not_configured)]\<rparr>,
            state_after = initial_state, calls = []\<rparr> \<and>
   createRefund stub_api clock0 initial_state input0 500 order0 payment0 =
      Some \<lparr>returned = Inr \<lparr>rf_state = Failed, rf_transactionId = None,
                rf_metadata = [(''error'', JStr not_configured)]\<rparr>,
            state_after = initial_state, calls = []\<rparr>"
  using unconfigured_calls_return_failure
          [of initial_state stub_api clock0 order0 1000 "[''token'' \<mapsto> JStr ''cnon:card'']"
              payment0 input0 500]
  by (simp add: initial_state_def order0_def)

text \<open>
  Claim C1 as written says that the configuration error propagates to the host. At the
  initial module state \<open>createPayment\<close> returns a \<open>Declined\<close> result instead.
\<close>

theorem unconfigured_createPayment_returns:
  "\<not> throws_to_host (createPayment stub_api clock0 initial_state order0 1000
                        [''sourceId'' \<mapsto> JStr ''cnon:card'']) \<and>
   createPayment stub_api clock0 initial_state order0 1000 [''sourceId'' \<mapsto> JStr ''cnon:card''] =
     Some \<lparr>returned = Inr \<lparr>cp_amount = 1000, cp_state = Declined, cp_transactionId = None,
              cp_errorMessage =
                Some ''Square options not configured - call SquarePlugin.init() first'',
              cp_metadata =
                [(''error'',
                  JStr ''Square options not configured - call SquarePlugin.init() first'')]\<rparr>,
           state_after = initial_state, calls = []\<rparr>"
  by (simp add: throws_to_host_def createPayment_def createPayment_try_def getSquareClient_def
        getSquareOptions_def initial_state_def createPayment_catch_def new_Error_def
        not_configured_def or_str_def of_opt_def order0_def)

lemma getSquareClient_Inl_iff:
  "(\<exists>e. getSquareClient st = Inl e) \<longleftrightarrow> (squareClient st = None \<and> squareOptions st = None)"
  by (auto simp: getSquareClient_def getSquareOptions_def Let_def split: option.splits)

section \<open>Early returns without a processor call\<close>

text \<open>
  Claim C2. When the metadata has neither a \<open>sourceId\<close> nor a \<open>token\<close> field,
  \<open>createPayment\<close> returns a \<open>Declined\<close> result with an error message and makes no
  processor call: the message names the missing token, or, before initialisation, the
  missing configuration.
\<close>

theorem createPayment_without_token_declined:
  assumes "md ''sourceId'' = None" and "md ''token'' = None"
  shows "\<exists>out r. createPayment api clk st order amt md = Some out \<and> returned out = Inr r \<and>
           cp_state r = Declined \<and> calls out = [] \<and>
           cp_errorMessage r =
             Some (if squareClient st = None \<and> squareOptions st = None then not_configured
                   else ''Missing Square payment token (sourceId) from frontend'')"
proof (cases "getSquareClient st")
  case (Inl e)
  then have u: "squareClient st = None \<and> squareOptions st = None"
    using getSquareClient_Inl_iff by blast
  from Inl have "e = new_Error not_configured" by (rule getSquareClient_throws)
  with Inl u show ?thesis
    by (simp add: createPayment_def createPayment_try_def createPayment_catch_def
          new_Error_def not_configured_nonempty)
next
  case (Inr x)
  then obtain c st1 where g: "getSquareClient st = Inr (c, st1)" by (cases x) auto
  then have u: "\<not> (squareClient st = None \<and> squareOptions st = None)"
    using getSquareClient_Inl_iff [of st] by auto
  from g u assms show ?thesis
    by (auto simp: createPayment_def createPayment_try_def get_prop_def js_or_def)
qed

theorem createPayment_without_token_declined_witness:
  "\<exists>out r. createPayment stub_api clock0 ready_state order0 1000 Map.empty = Some out \<and>
     returned out = Inr r \<and> cp_state r = Declined \<and> calls out = [] \<and>
     cp_errorMessage r = Some ''Missing Square payment token (sourceId) from frontend''"
  using createPayment_without_token_declined
          [of Map.empty stub_api clock0 ready_state order0 1000]
  by (simp add: ready_state_def SquarePlugin_init_def setSquareOptions_def initial_state_def)

text \<open>
  Claim C3. When the payment record has no transaction id (or an empty one, which the
  truthiness test treats alike), \<open>settlePayment\<close> returns \<open>success = false\<close> and
  \<open>createRefund\<close> returns state \<open>Failed\<close>, and neither makes a processor call.
\<close>

theorem missing_transaction_id_fails_without_call:
  assumes "transactionId pay = None \<or> transactionId pay = Some []"
  shows "(\<exists>out r. settlePayment api clk st order pay = Some out \<and> returned out = Inr r \<and>
            \<not> sp_success r \<and> calls out = [] \<and>
            sp_errorMessage r =
              Some (if squareClient st = None \<and> squareOptions st = None then not_configured
                    else ''Missing Square payment ID - cannot settle payment'')) \<and>
         (\<exists>out r. createRefund api clk st input amt order pay = Some out \<and> returned out = Inr r \<and>
            rf_state r = Failed \<and> calls out = [] \<and>
            rf_metadata r =
              [(''error'',
                JStr (if squareClient st = None \<and> squareOptions st = None then not_configured
                      else ''Missing Square payment ID''))])"
proof (cases "getSquareClient st")
  case (Inl e)
  then have u: "squareClient st = None \<and> squareOptions st = None"
    using getSquareClient_Inl_iff by blast
  from Inl have "e = new_Error not_configured" by (rule getSquareClient_throws)
  with Inl u show ?thesis
    by (simp add: settlePayment_def settlePayment_try_def settlePayment_catch_def
          createRefund_def createRefund_try_def createRefund_catch_def
          new_Error_def not_configured_nonempty)
next
  case (Inr x)
  then obtain c st1 where g: "getSquareClient st = Inr (c, st1)" by (cases x) auto
  then have u: "\<not> (squareClient st = None \<and> squareOptions st = None)"
    using getSquareClient_Inl_iff [of st] by auto
  from assms have t: "or_str (transactionId pay) [] = []"
    by (auto simp: or_str_def)
  from g u t show ?thesis
    by (auto simp: settlePayment_def settlePayment_try_def createRefund_def createRefund_try_def)
qed

theorem missing_transaction_id_fails_without_call_witness:
  "(\<exists>out r. settlePayment stub_api clock0 ready_state order0 payment_no_tx = Some out \<and>
      returned out = Inr r \<and> \<not> sp_success r \<and> calls out = []) \<and>
   (\<exists>out r. createRefund stub_api clock0 ready_state input0 500 order0 payment_no_tx = Some out \<and>
      returned out = Inr r \<and> rf_state r = Failed \<and> calls out = [])"
  using missing_transaction_id_fails_without_call
          [of payment_no_tx stub_api clock0 ready_state order0 input0 500]
  by (simp add: payment_no_tx_def) blast

section \<open>Classification of processor responses\<close>

lemma getSquareClient_ready: "getSquareClient ready_state = Inr (client0, cached_state)"
  by (simp add: getSquareClient_def getSquareOptions_def ready_state_def SquarePlugin_init_def
        setSquareOptions_def initial_state_def opts0_def client0_def cached_state_def Let_def)

lemma or_str_empty: "or_str x [] = (case x of None \<Rightarrow> [] | Some s \<Rightarrow> s)"
  by (simp add: or_str_def split: option.splits)




lemma createRefund_run:
  assumes "getSquareClient st = Inr (client, st1)"
      and "transactionId pay = Some tid" and "tid \<noteq> []"
      and "req = createRefund_request
                   (code order @ ''-refund-'' @ show_ident (payment_id pay) @ ''-''
                      @ show_nat (dateNow clk)) tid amt order input"
  shows "createRefund api clk st input amt order pay =
     Some \<lparr>returned = Inr
             (case refunds_refundPayment api client req of
                Fulfils t resp \<Rightarrow>
                  if t \<le> 30000 then
                    (case refund resp of
                       None \<Rightarrow> \<lparr>rf_state = Failed, rf_transactionId = None,
                                rf_metadata =
                                  [(''error'', JStr ''Refund failed with status: undefined'')]\<rparr>
                     | Some rf \<Rightarrow>
                         if ref_status rf = Defined ''COMPLETED'' \<or> ref_status rf = Defined ''PENDING''
                         then
                           \<lparr>rf_state = Settled,
                            rf_transactionId =
                              Some (case ref_id rf of None \<Rightarrow> [] | Some i \<Rightarrow> i),
                            rf_metadata = [(''squareRefundId'', of_opt (ref_id rf)),
                                           (''status'', of_nullable (ref_status rf)),
                                           (''refundedAt'', JStr (isoNow clk))]\<rparr>
                         else
                           \<lparr>rf_state = Failed, rf_transactionId = None,
                            rf_metadata =
                              [(''error'', JStr (''Refund failed with status: ''
                                                 @ str_nullable (ref_status rf)))]\<rparr>)
                  else createRefund_catch (new_Error ''Square refund timeout'')
              | Rejects t e \<Rightarrow>
                  if t \<le> 30000 then createRefund_catch e
                  else createRefund_catch (new_Error ''Square refund timeout'')
              | Hangs \<Rightarrow> createRefund_catch (new_Error ''Square refund timeout'')),
           state_after = st1, calls = [RefundsRefundPayment client req]\<rparr>"
  using assms
  by (cases "refunds_refundPayment api client req")
     (auto simp: createRefund_def createRefund_try_def or_str_empty await_withTimeout Let_def
                 str_opt_def split: option.splits)



section \<open>Authorization\<close>

lemma createPayment_run:
  assumes "getSquareClient st = Inr (client, st1)"
      and "squareOptions st = Some options"
      and "truthy (js_or (get_prop md ''sourceId'') (get_prop md ''token''))"
      and "req = createPayment_request (js_or (get_prop md ''sourceId'') (get_prop md ''token''))
                   (code order @ ''-create-'' @ show_nat (dateNow clk)) amt order options"
  shows "createPayment api clk st order amt md =
     Some \<lparr>returned = Inr
             (case payments_create api client req of
                Fulfils t resp \<Rightarrow>
                  if t \<le> 30000 then
                    (case payment resp of
                       None \<Rightarrow> \<lparr>cp_amount = total order, cp_state = Declined,
                                cp_transactionId = None,
                                cp_errorMessage = Some
                                  ''Square payment creation failed - no payment object returned'',
                                cp_metadata = []\<rparr>
                     | Some p \<Rightarrow>
                         \<lparr>cp_amount = total order, cp_state = Authorized,
                          cp_transactionId = Some (case pay_id p of None \<Rightarrow> [] | Some i \<Rightarrow> i),
                          cp_errorMessage = None,
                          cp_metadata = [(''squarePaymentId'', of_opt (pay_id p)),
                                         (''status'', of_opt (pay_status p)),
                                         (''receiptUrl'', of_opt (pay_receiptUrl p)),
                                         (''orderId'', of_opt (pay_orderId p))]\<rparr>)
                  else createPayment_catch order (new_Error ''Square payment creation timeout'')
              | Rejects t e \<Rightarrow>
                  if t \<le> 30000 then createPayment_catch order e
                  else createPayment_catch order (new_Error ''Square payment creation timeout'')
              | Hangs \<Rightarrow> createPayment_catch order (new_Error ''Square payment creation timeout'')),
           state_after = st1, calls = [PaymentsCreate client req]\<rparr>"
proof -
  have o: "getSquareOptions st1 = Inr options"
    using getSquareClient_options [OF assms(1)] assms(2) by (simp add: getSquareOptions_def)
  show ?thesis
    using assms(1,3,4) o
    by (cases "payments_create api client req")
       (auto simp: createPayment_def createPayment_try_def or_str_empty await_withTimeout Let_def
             split: option.splits)
qed

text \<open>
  Claim C9. Once credentials are stored and the accessor has given a client, a
  \<open>createPayment\<close> call with a token, whose processor call is answered before the
  deadline with a payment object, returns state \<open>Authorized\<close>; the transaction id is the
  processor's payment id (the empty string if the payment object has none) and the
  metadata carries the payment id, status, receipt URL and processor-side order id. The
  one request sent has \<open>autocomplete\<close> false. The witness is the scenario of the
  specification, run from \<open>SquarePlugin.init\<close> on the initial state.
\<close>

theorem createPayment_authorizes:
  assumes "getSquareClient st = Inr (client, st1)"
      and "squareOptions st = Some options"
      and "truthy (js_or (get_prop md ''sourceId'') (get_prop md ''token''))"
      and "req = createPayment_request (js_or (get_prop md ''sourceId'') (get_prop md ''token''))
                   (code order @ ''-create-'' @ show_nat (dateNow clk)) amt order options"
      and "payments_create api client req = Fulfils t resp" and "t < 30000"
      and "payment resp = Some p"
  shows "\<exists>r. createPayment api clk st order amt md =
           Some \<lparr>returned = Inr r, state_after = st1, calls = [PaymentsCreate client req]\<rparr> \<and>
         autocomplete req = False \<and>
         cp_state r = Authorized \<and>
         cp_transactionId r = Some (case pay_id p of None \<Rightarrow> [] | Some i \<Rightarrow> i) \<and>
         cp_errorMessage r = None \<and>
         cp_metadata r = [(''squarePaymentId'', of_opt (pay_id p)),
                          (''status'', of_opt (pay_status p)),
                          (''receiptUrl'', of_opt (pay_receiptUrl p)),
                          (''orderId'', of_opt (pay_orderId p))]"
  unfolding createPayment_run [OF assms(1-4)]
  using assms(4-7) by (simp add: createPayment_request_def)

theorem createPayment_authorizes_witness:
  "\<exists>r. createPayment stub_api clock0 (SquarePlugin_init opts0 initial_state) order0 1000
              [''sourceId'' \<mapsto> JStr ''cnon:card''] =
           Some \<lparr>returned = Inr r, state_after = cached_state,
                 calls = [PaymentsCreate client0
                            \<lparr>sourceId = JStr ''cnon:card'',
                             idempotencyKey = ''ORD1-create-1759190400000'',
                             amountMoney = \<lparr>amount = 1000, currency = ''USD''\<rparr>,
                             req_locationId = ''L1'', referenceId = ''ORD1'',
                             req_note = ''Order ORD1'', autocomplete = False\<rparr>]\<rparr> \<and>
         cp_state r = Authorized \<and> cp_transactionId r = Some ''pay_1'' \<and>
         cp_metadata r = [(''squarePaymentId'', JStr ''pay_1''), (''status'', JStr ''AUTHORIZED''),
                          (''receiptUrl'', JUndefined), (''orderId'', JUndefined)]"
proof -
  have o: "squareOptions ready_state = Some opts0"
    by (simp add: ready_state_def SquarePlugin_init_def setSquareOptions_def initial_state_def)
  have s: "truthy (js_or (get_prop [''sourceId'' \<mapsto> JStr ''cnon:card''] ''sourceId'')
                         (get_prop [''sourceId'' \<mapsto> JStr ''cnon:card''] ''token''))"
    by (simp add: js_or_def get_prop_def)
  have k: "show_nat 1759190400000 = ''1759190400000''"
    by (simp add: show_nat.simps digit_char_def)
  have p: "payments_create stub_api client0 req =
             Fulfils 120 \<lparr>payment = Some \<lparr>pay_id = Some ''pay_1'',
               pay_status = Some ''AUTHORIZED'', pay_receiptUrl = None, pay_orderId = None\<rparr>\<rparr>"
    for req
    by (simp add: stub_api_def)
  have t: "(120::nat) < 30000" by simp
  show ?thesis
    using createPayment_authorizes [where api = stub_api and clk = clock0 and order = order0
            and amt = 1000, OF getSquareClient_ready o s refl p t]
    by (simp add: ready_state_def createPayment_request_def order0_def clock0_def opts0_def
          k of_opt_def js_or_def get_prop_def) blast
qed

section \<open>The amount reported by createPayment\<close>

lemma createPayment_try_amount:
  "\<exists>out. createPayment_try api clk st order amt md = Some out \<and>
     (\<forall>r. returned out = Inr r \<longrightarrow> cp_amount r = total order) \<and>
     (\<forall>c req. PaymentsCreate c req \<in> set (calls out) \<longrightarrow> amount (amountMoney req) = amt)"
  unfolding createPayment_try_def Let_def await_withTimeout
  by (auto simp: createPayment_request_def split: sum.splits option.splits promise.splits)

text \<open>
  Claim C10. Whatever the state, the processor and the inputs, \<open>createPayment\<close> returns a
  result (it neither throws nor hangs) whose \<open>amount\<close> is \<open>order.total\<close>, in every
  branch. A call that has a client, stored credentials and a token sends exactly one
  charge request, and that request carries the \<open>amount\<close> argument; no other request is
  ever sent. So when the argument differs from the order total, the amount in the result
  differs from the amount charged.
\<close>

theorem createPayment_amount_is_order_total:
  "\<exists>out r. createPayment api clk st order amt md = Some out \<and> returned out = Inr r \<and>
     cp_amount r = total order \<and>
     (\<forall>c req. PaymentsCreate c req \<in> set (calls out) \<longrightarrow> amount (amountMoney req) = amt) \<and>
     (amt \<noteq> total order \<longrightarrow> cp_amount r \<noteq> amt) \<and>
     (getSquareClient st = Inr (client, st1) \<and> squareOptions st = Some options \<and>
      truthy (js_or (get_prop md ''sourceId'') (get_prop md ''token'')) \<longrightarrow>
        calls out =
          [PaymentsCreate client
             (createPayment_request (js_or (get_prop md ''sourceId'') (get_prop md ''token''))
                (code order @ ''-create-'' @ show_nat (dateNow clk)) amt order options)] \<and>
        amount (amountMoney
          (createPayment_request (js_or (get_prop md ''sourceId'') (get_prop md ''token''))
             (code order @ ''-create-'' @ show_nat (dateNow clk)) amt order options)) = amt)"
proof -
  obtain out where o: "createPayment_try api clk st order amt md = Some out"
    and a: "\<forall>r. returned out = Inr r \<longrightarrow> cp_amount r = total order"
    and c: "\<forall>c req. PaymentsCreate c req \<in> set (calls out) \<longrightarrow> amount (amountMoney req) = amt"
    using createPayment_try_amount by blast
  obtain out' r where o': "createPayment api clk st order amt md = Some out'"
    and r: "returned out' = Inr r" and t: "cp_amount r = total order"
    and c': "calls out' = calls out"
  proof (cases "returned out")
    case (Inl e)
    with o that show ?thesis
      by (simp add: createPayment_def createPayment_catch_def)
  next
    case (Inr r)
    with o a that show ?thesis
      by (simp add: createPayment_def)
  qed
  have s: "calls out' =
          [PaymentsCreate client
             (createPayment_request (js_or (get_prop md ''sourceId'') (get_prop md ''token''))
                (code order @ ''-create-'' @ show_nat (dateNow clk)) amt order options)]"
    if "getSquareClient st = Inr (client, st1)" "squareOptions st = Some options"
       "truthy (js_or (get_prop md ''sourceId'') (get_prop md ''token''))"
    using o' unfolding createPayment_run [OF that refl] by auto
  have q: "amount (amountMoney
          (createPayment_request (js_or (get_prop md ''sourceId'') (get_prop md ''token''))
             (code order @ ''-create-'' @ show_nat (dateNow clk)) amt order options)) = amt"
    by (simp add: createPayment_request_def)
  from o' r t c c' s q show ?thesis by auto
qed

theorem createPayment_amount_is_order_total_witness:
  "\<exists>r. createPayment stub_api clock0 ready_state order0 250
              [''sourceId'' \<mapsto> JStr ''cnon:card''] =
           Some \<lparr>returned = Inr r, state_after = cached_state,
                 calls = [PaymentsCreate client0
                            \<lparr>sourceId = JStr ''cnon:card'',
                             idempotencyKey = ''ORD1-create-1759190400000'',
                             amountMoney = \<lparr>amount = 250, currency = ''USD''\<rparr>,
                             req_locationId = ''L1'', referenceId = ''ORD1'',
                             req_note = ''Order ORD1'', autocomplete = False\<rparr>]\<rparr> \<and>
         cp_amount r = 1000 \<and> cp_amount r \<noteq> 250"
proof -
  have o: "squareOptions ready_state = Some opts0"
    by (simp add: ready_state_def SquarePlugin_init_def setSquareOptions_def initial_state_def)
  have k: "show_nat 1759190400000 = ''1759190400000''"
    by (simp add: show_nat.simps digit_char_def)
  have g: "getSquareClient ready_state = Inr (client0, cached_state)"
    by (rule getSquareClient_ready)
  obtain out r where
       e: "createPayment stub_api clock0 ready_state order0 250
             [''sourceId'' \<mapsto> JStr ''cnon:card''] = Some out"
   and r: "returned out = Inr r" "cp_amount r = 1000" "cp_amount r \<noteq> 250"
   and c: "calls out = [PaymentsCreate client0
                            \<lparr>sourceId = JStr ''cnon:card'',
                             idempotencyKey = ''ORD1-create-1759190400000'',
                             amountMoney = \<lparr>amount = 250, currency = ''USD''\<rparr>,
                             req_locationId = ''L1'', referenceId = ''ORD1'',
                             req_note = ''Order ORD1'', autocomplete = False\<rparr>]"
    using createPayment_amount_is_order_total
            [where api = stub_api and clk = clock0 and st = ready_state and order = order0
               and amt = 250 and md = "[''sourceId'' \<mapsto> JStr ''cnon:card'']"
               and client = client0 and ?st1.0 = cached_state and options = opts0]
    by (auto simp: g o js_or_def get_prop_def order0_def opts0_def clock0_def k
                   createPayment_request_def)
  have st: "state_after out = cached_state"
    using e unfolding createPayment_def createPayment_try_def
    by (auto simp: g Let_def split: sum.splits option.splits if_splits)
  have "out = \<lparr>returned = Inr r, state_after = cached_state, calls = calls out\<rparr>"
    using r(1) st by simp
  with e r c show ?thesis by auto
qed

section \<open>The timeout wrapper\<close>




section \<open>Idempotency keys\<close>

text \<open>Decimal rendering is injective and produces digits only.\<close>

lemma digit_char_digit: "d < 10 \<Longrightarrow> digit_char d \<in> set ''0123456789''"
  unfolding digit_char_def by (rule nth_mem) simp

lemma digit_char_inj: "d < 10 \<Longrightarrow> e < 10 \<Longrightarrow> digit_char d = digit_char e \<Longrightarrow> d = e"
proof -
  assume a: "d < 10" "e < 10" "digit_char d = digit_char e"
  have "distinct ''0123456789''" by simp
  moreover have "d < length ''0123456789''" "e < length ''0123456789''" using a by simp_all
  ultimately show "d = e"
    using a(3) unfolding digit_char_def by (simp only: nth_eq_iff_index_eq)
qed

lemma show_nat_nonempty: "show_nat n \<noteq> []"
  by (subst show_nat.simps) simp

lemma show_nat_digits: "set (show_nat n) \<subseteq> set ''0123456789''"
proof (induction n rule: show_nat.induct)
  case (1 n)
  show ?case
  proof (cases "n < 10")
    case True
    then show ?thesis
      using digit_char_digit [of n] by (subst show_nat.simps) simp
  next
    case False
    have "n mod 10 < 10" by simp
    then have "digit_char (n mod 10) \<in> set ''0123456789''" by (rule digit_char_digit)
    with False 1 show ?thesis
      by (subst show_nat.simps) simp
  qed
qed

lemma show_nat_no_dash: "CHR ''-'' \<notin> set (show_nat n)"
  using show_nat_digits [of n] by auto

lemma show_nat_inj: "show_nat n = show_nat m \<Longrightarrow> n = m"
proof (induction n arbitrary: m rule: show_nat.induct)
  case (1 n)
  show ?case
  proof (cases "n < 10")
    case n: True
    show ?thesis
    proof (cases "m < 10")
      case True
      with n 1(2) have "digit_char n = digit_char m"
        by (simp add: show_nat.simps [of n] show_nat.simps [of m])
      with n True show ?thesis by (rule digit_char_inj)
    next
      case False
      with n 1(2) have "[digit_char n] = show_nat (m div 10) @ [digit_char (m mod 10)]"
        by (simp add: show_nat.simps [of n] show_nat.simps [of m])
      then have "show_nat (m div 10) = []" by simp
      then show ?thesis using show_nat_nonempty by blast
    qed
  next
    case n: False
    show ?thesis
    proof (cases "m < 10")
      case True
      with n 1(2) have "show_nat (n div 10) @ [digit_char (n mod 10)] = [digit_char m]"
        by (simp add: show_nat.simps [of n] show_nat.simps [of m])
      then have "show_nat (n div 10) = []" by simp
      then show ?thesis using show_nat_nonempty by blast
    next
      case False
      with n 1(2) have e: "show_nat (n div 10) @ [digit_char (n mod 10)] =
                           show_nat (m div 10) @ [digit_char (m mod 10)]"
        by (simp add: show_nat.simps [of n] show_nat.simps [of m])
      then have a: "show_nat (n div 10) = show_nat (m div 10)"
        and b: "digit_char (n mod 10) = digit_char (m mod 10)" by simp_all
      from 1(1) [OF n a] have q: "n div 10 = m div 10" .
      have "n mod 10 = m mod 10"
        using b by (intro digit_char_inj) simp_all
      with q show ?thesis
        by (metis div_mult_mod_eq)
    qed
  qed
qed

text \<open>A digit string after the last dash of a key is determined by the key.\<close>

lemma after_last_dash:
  assumes "xs @ CHR ''-'' # d = ys @ CHR ''-'' # e"
      and "CHR ''-'' \<notin> set d" and "CHR ''-'' \<notin> set e"
  shows "d = e"
proof -
  have r: "rev d @ CHR ''-'' # rev xs = rev e @ CHR ''-'' # rev ys"
    using arg_cong [OF assms(1), of rev] by simp
  have "takeWhile (\<lambda>c. c \<noteq> CHR ''-'') (rev d @ CHR ''-'' # rev xs) = rev d"
    using assms(2) by (auto simp: takeWhile_tail takeWhile_eq_all_conv)
  moreover have "takeWhile (\<lambda>c. c \<noteq> CHR ''-'') (rev e @ CHR ''-'' # rev ys) = rev e"
    using assms(3) by (auto simp: takeWhile_tail takeWhile_eq_all_conv)
  ultimately have "rev d = rev e" using r by simp
  then show ?thesis by simp
qed

lemma create_keys_differ:
  assumes "n \<noteq> m"
  shows "c1 @ ''-create-'' @ show_nat n \<noteq> c2 @ ''-create-'' @ show_nat m"
proof
  assume "c1 @ ''-create-'' @ show_nat n = c2 @ ''-create-'' @ show_nat m"
  then have "(c1 @ ''-create'') @ CHR ''-'' # show_nat n = (c2 @ ''-create'') @ CHR ''-'' # show_nat m"
    by simp
  then have "show_nat n = show_nat m"
    by (rule after_last_dash) (rule show_nat_no_dash)+
  with assms show False using show_nat_inj by blast
qed

lemma refund_keys_differ:
  assumes "n \<noteq> m"
  shows "c1 @ ''-refund-'' @ p1 @ ''-'' @ show_nat n \<noteq> c2 @ ''-refund-'' @ p2 @ ''-'' @ show_nat m"
proof
  assume "c1 @ ''-refund-'' @ p1 @ ''-'' @ show_nat n = c2 @ ''-refund-'' @ p2 @ ''-'' @ show_nat m"
  then have "(c1 @ ''-refund-'' @ p1) @ CHR ''-'' # show_nat n =
             (c2 @ ''-refund-'' @ p2) @ CHR ''-'' # show_nat m"
    by simp
  then have "show_nat n = show_nat m"
    by (rule after_last_dash) (rule show_nat_no_dash)+
  with assms show False using show_nat_inj by blast
qed

lemma createPayment_key:
  "\<exists>out. createPayment api clk st order amt md = Some out \<and>
     (\<forall>c req. PaymentsCreate c req \<in> set (calls out) \<longrightarrow>
        idempotencyKey req = code order @ ''-create-'' @ show_nat (dateNow clk))"
  unfolding createPayment_def createPayment_try_def Let_def await_withTimeout
  by (auto simp: createPayment_request_def split: sum.splits option.splits promise.splits)

lemma createRefund_key:
  "\<exists>out. createRefund api clk st input amt order pay = Some out \<and>
     (\<forall>c req. RefundsRefundPayment c req \<in> set (calls out) \<longrightarrow>
        refund_idempotencyKey req =
          code order @ ''-refund-'' @ show_ident (payment_id pay) @ ''-'' @ show_nat (dateNow clk))"
  unfolding createRefund_def createRefund_try_def Let_def await_withTimeout
  by (auto simp: createRefund_request_def split: sum.splits option.splits promise.splits)

text \<open>
  Claim C7. A \<open>createPayment\<close> call that has a client, stored credentials and a token
  sends exactly one request, whose key is \<open>orderCode-create-<ms>\<close>; a \<open>createRefund\<close>
  call that has a client and a transaction id sends exactly one request, whose key is
  \<open>orderCode-refund-<payment id>-<ms>\<close>; here \<open><ms>\<close> is the clock reading in
  milliseconds. No call of either method ever sends a request with another key. Hence
  two invocations for the same order whose clock readings differ send different keys
  (for refunds, whatever the two payment records are).
\<close>

theorem idempotency_keys_carry_timestamp:
  "(getSquareClient st = Inr (client, st1) \<and> squareOptions st = Some options \<and>
    truthy (js_or (get_prop md ''sourceId'') (get_prop md ''token'')) \<longrightarrow>
      (\<exists>out. createPayment api clk st order amt md = Some out \<and>
         calls out =
           [PaymentsCreate client
              (createPayment_request (js_or (get_prop md ''sourceId'') (get_prop md ''token''))
                 (code order @ ''-create-'' @ show_nat (dateNow clk)) amt order options)] \<and>
         idempotencyKey
           (createPayment_request (js_or (get_prop md ''sourceId'') (get_prop md ''token''))
              (code order @ ''-create-'' @ show_nat (dateNow clk)) amt order options) =
           code order @ ''-create-'' @ show_nat (dateNow clk))) \<and>
   (getSquareClient st = Inr (client, st1) \<and> transactionId pay = Some tid \<and> tid \<noteq> [] \<longrightarrow>
      (\<exists>out. createRefund api clk st input ramt order pay = Some out \<and>
         calls out =
           [RefundsRefundPayment client
              (createRefund_request
                 (code order @ ''-refund-'' @ show_ident (payment_id pay) @ ''-''
                    @ show_nat (dateNow clk)) tid ramt order input)] \<and>
         refund_idempotencyKey
           (createRefund_request
              (code order @ ''-refund-'' @ show_ident (payment_id pay) @ ''-''
                 @ show_nat (dateNow clk)) tid ramt order input) =
           code order @ ''-refund-'' @ show_ident (payment_id pay) @ ''-''
             @ show_nat (dateNow clk))) \<and>
   (\<exists>out. createPayment api clk st order amt md = Some out \<and>
      (\<forall>c req. PaymentsCreate c req \<in> set (calls out) \<longrightarrow>
         idempotencyKey req = code order @ ''-create-'' @ show_nat (dateNow clk))) \<and>
   (\<exists>out. createRefund api clk st input ramt order pay = Some out \<and>
      (\<forall>c req. RefundsRefundPayment c req \<in> set (calls out) \<longrightarrow>
         refund_idempotencyKey req =
           code order @ ''-refund-'' @ show_ident (payment_id pay) @ ''-''
             @ show_nat (dateNow clk))) \<and>
   (createPayment api clk st order amt md = Some out1 \<and>
    createPayment api2 clk2 st2 order amt2 md2 = Some out2 \<and>
    PaymentsCreate c1 req1 \<in> set (calls out1) \<and> PaymentsCreate c2 req2 \<in> set (calls out2) \<and>
    dateNow clk \<noteq> dateNow clk2 \<longrightarrow>
      idempotencyKey req1 \<noteq> idempotencyKey req2) \<and>
   (createRefund api clk st input ramt order pay = Some rout1 \<and>
    createRefund api2 clk2 st2 input2 ramt2 order pay2 = Some rout2 \<and>
    RefundsRefundPayment c1 rreq1 \<in> set (calls rout1) \<and>
    RefundsRefundPayment c2 rreq2 \<in> set (calls rout2) \<and>
    dateNow clk \<noteq> dateNow clk2 \<longrightarrow>
      refund_idempotencyKey rreq1 \<noteq> refund_idempotencyKey rreq2)"
proof (intro conjI impI)
  assume a: "getSquareClient st = Inr (client, st1) \<and> squareOptions st = Some options \<and>
    truthy (js_or (get_prop md ''sourceId'') (get_prop md ''token''))"
  then have g: "getSquareClient st = Inr (client, st1)" and o: "squareOptions st = Some options"
    and t: "truthy (js_or (get_prop md ''sourceId'') (get_prop md ''token''))"
    by simp_all
  show "\<exists>out. createPayment api clk st order amt md = Some out \<and>
         calls out =
           [PaymentsCreate client
              (createPayment_request (js_or (get_prop md ''sourceId'') (get_prop md ''token''))
                 (code order @ ''-create-'' @ show_nat (dateNow clk)) amt order options)] \<and>
         idempotencyKey
           (createPayment_request (js_or (get_prop md ''sourceId'') (get_prop md ''token''))
              (code order @ ''-create-'' @ show_nat (dateNow clk)) amt order options) =
           code order @ ''-create-'' @ show_nat (dateNow clk)"
    unfolding createPayment_run [OF g o t refl]
    by (simp add: createPayment_request_def)
next
  assume a: "getSquareClient st = Inr (client, st1) \<and> transactionId pay = Some tid \<and> tid \<noteq> []"
  then have g: "getSquareClient st = Inr (client, st1)" and t: "transactionId pay = Some tid"
    and n: "tid \<noteq> []"
    by simp_all
  show "\<exists>out. createRefund api clk st input ramt order pay = Some out \<and>
         calls out =
           [RefundsRefundPayment client
              (createRefund_request
                 (code order @ ''-refund-'' @ show_ident (payment_id pay) @ ''-''
                    @ show_nat (dateNow clk)) tid ramt order input)] \<and>
         refund_idempotencyKey
           (createRefund_request
              (code order @ ''-refund-'' @ show_ident (payment_id pay) @ ''-''
                 @ show_nat (dateNow clk)) tid ramt order input) =
           code order @ ''-refund-'' @ show_ident (payment_id pay) @ ''-''
             @ show_nat (dateNow clk)"
    unfolding createRefund_run [OF g t n refl]
    by (simp add: createRefund_request_def)
next
  show "\<exists>out. createPayment api clk st order amt md = Some out \<and>
      (\<forall>c req. PaymentsCreate c req \<in> set (calls out) \<longrightarrow>
         idempotencyKey req = code order @ ''-create-'' @ show_nat (dateNow clk))"
    by (rule createPayment_key)
next
  show "\<exists>out. createRefund api clk st input ramt order pay = Some out \<and>
      (\<forall>c req. RefundsRefundPayment c req \<in> set (calls out) \<longrightarrow>
         refund_idempotencyKey req =
           code order @ ''-refund-'' @ show_ident (payment_id pay) @ ''-''
             @ show_nat (dateNow clk))"
    by (rule createRefund_key)
next
  assume a: "createPayment api clk st order amt md = Some out1 \<and>
    createPayment api2 clk2 st2 order amt2 md2 = Some out2 \<and>
    PaymentsCreate c1 req1 \<in> set (calls out1) \<and> PaymentsCreate c2 req2 \<in> set (calls out2) \<and>
    dateNow clk \<noteq> dateNow clk2"
  have k1: "idempotencyKey req1 = code order @ ''-create-'' @ show_nat (dateNow clk)"
    using createPayment_key [of api clk st order amt md] a by auto
  have k2: "idempotencyKey req2 = code order @ ''-create-'' @ show_nat (dateNow clk2)"
    using createPayment_key [of api2 clk2 st2 order amt2 md2] a by auto
  from a have "dateNow clk \<noteq> dateNow clk2" by simp
  then show "idempotencyKey req1 \<noteq> idempotencyKey req2"
    unfolding k1 k2 by (rule create_keys_differ)
next
  assume a: "createRefund api clk st input ramt order pay = Some rout1 \<and>
    createRefund api2 clk2 st2 input2 ramt2 order pay2 = Some rout2 \<and>
    RefundsRefundPayment c1 rreq1 \<in> set (calls rout1) \<and>
    RefundsRefundPayment c2 rreq2 \<in> set (calls rout2) \<and>
    dateNow clk \<noteq> dateNow clk2"
  have k1: "refund_idempotencyKey rreq1 =
      code order @ ''-refund-'' @ show_ident (payment_id pay) @ ''-'' @ show_nat (dateNow clk)"
    using createRefund_key [of api clk st input ramt order pay] a by auto
  have k2: "refund_idempotencyKey rreq2 =
      code order @ ''-refund-'' @ show_ident (payment_id pay2) @ ''-'' @ show_nat (dateNow clk2)"
    using createRefund_key [of api2 clk2 st2 input2 ramt2 order pay2] a by auto
  from a have "dateNow clk \<noteq> dateNow clk2" by simp
  then show "refund_idempotencyKey rreq1 \<noteq> refund_idempotencyKey rreq2"
    unfolding k1 k2 by (rule refund_keys_differ)
qed

lemma stub_createPayment:
  "createPayment stub_api clk ready_state order0 1000 [''sourceId'' \<mapsto> JStr ''cnon:card''] =
     Some \<lparr>returned = Inr authorized0, state_after = cached_state,
           calls = [PaymentsCreate client0 (request_at clk)]\<rparr>"
proof -
  have o: "squareOptions ready_state = Some opts0"
    by (simp add: ready_state_def SquarePlugin_init_def setSquareOptions_def initial_state_def)
  have s: "js_or (get_prop [''sourceId'' \<mapsto> JStr ''cnon:card''] ''sourceId'')
                 (get_prop [''sourceId'' \<mapsto> JStr ''cnon:card''] ''token'') = JStr ''cnon:card''"
    by (simp add: js_or_def get_prop_def)
  have r: "request_at clk =
      createPayment_request
        (js_or (get_prop [''sourceId'' \<mapsto> JStr ''cnon:card''] ''sourceId'')
               (get_prop [''sourceId'' \<mapsto> JStr ''cnon:card''] ''token''))
        (code order0 @ ''-create-'' @ show_nat (dateNow clk)) 1000 order0 opts0"
    unfolding s request_at_def ..
  have t: "truthy (js_or (get_prop [''sourceId'' \<mapsto> JStr ''cnon:card''] ''sourceId'')
                         (get_prop [''sourceId'' \<mapsto> JStr ''cnon:card''] ''token''))"
    unfolding s by simp
  show ?thesis
    unfolding createPayment_run [OF getSquareClient_ready o t r]
    by (simp add: stub_api_def authorized0_def of_opt_def order0_def)
qed

lemma stub_createRefund:
  "createRefund stub_api clk ready_state input0 500 order0 payment0 =
     Some \<lparr>returned = Inr (settled_at clk), state_after = cached_state,
           calls = [RefundsRefundPayment client0 (refund_request_at clk)]\<rparr>"
proof -
  have t: "transactionId payment0 = Some ''pay_1''" "''pay_1'' \<noteq> []"
    by (simp_all add: payment0_def)
  have r: "refund_request_at clk =
      createRefund_request
        (code order0 @ ''-refund-'' @ show_ident (payment_id payment0) @ ''-''
           @ show_nat (dateNow clk)) ''pay_1'' 500 order0 input0"
    by (simp add: refund_request_at_def)
  show ?thesis
    unfolding createRefund_run [OF getSquareClient_ready t r]
    by (simp add: stub_api_def settled_at_def of_opt_def)
qed

theorem idempotency_keys_carry_timestamp_witness:
  "createPayment stub_api clock0 ready_state order0 1000 [''sourceId'' \<mapsto> JStr ''cnon:card''] =
     Some \<lparr>returned = Inr authorized0, state_after = cached_state,
           calls = [PaymentsCreate client0 (request_at clock0)]\<rparr> \<and>
   createPayment stub_api clock1 ready_state order0 1000 [''sourceId'' \<mapsto> JStr ''cnon:card''] =
     Some \<lparr>returned = Inr authorized0, state_after = cached_state,
           calls = [PaymentsCreate client0 (request_at clock1)]\<rparr> \<and>
   idempotencyKey (request_at clock0) = ''ORD1-create-1759190400000'' \<and>
   idempotencyKey (request_at clock1) = ''ORD1-create-1759190400250'' \<and>
   idempotencyKey (request_at clock0) \<noteq> idempotencyKey (request_at clock1) \<and>
   createRefund stub_api clock0 ready_state input0 500 order0 payment0 =
     Some \<lparr>returned = Inr (settled_at clock0), state_after = cached_state,
           calls = [RefundsRefundPayment client0 (refund_request_at clock0)]\<rparr> \<and>
   createRefund stub_api clock1 ready_state input0 500 order0 payment0 =
     Some \<lparr>returned = Inr (settled_at clock1), state_after = cached_state,
           calls = [RefundsRefundPayment client0 (refund_request_at clock1)]\<rparr> \<and>
   refund_idempotencyKey (refund_request_at clock0) = ''ORD1-refund-7-1759190400000'' \<and>
   refund_idempotencyKey (refund_request_at clock1) = ''ORD1-refund-7-1759190400250'' \<and>
   refund_idempotencyKey (refund_request_at clock0) \<noteq>
     refund_idempotencyKey (refund_request_at clock1)"
proof -
  have d: "dateNow clock0 \<noteq> dateNow clock1"
    by (simp add: clock0_def clock1_def)
  have k0: "idempotencyKey (request_at clock0) = ''ORD1-create-1759190400000''"
    by (simp add: request_at_def createPayment_request_def order0_def clock0_def
          show_nat.simps digit_char_def)
  have k1: "idempotencyKey (request_at clock1) = ''ORD1-create-1759190400250''"
    by (simp add: request_at_def createPayment_request_def order0_def clock1_def
          show_nat.simps digit_char_def)
  have r0: "refund_idempotencyKey (refund_request_at clock0) = ''ORD1-refund-7-1759190400000''"
    by (simp add: refund_request_at_def createRefund_request_def order0_def clock0_def
          payment0_def show_nat.simps digit_char_def)
  have r1: "refund_idempotencyKey (refund_request_at clock1) = ''ORD1-refund-7-1759190400250''"
    by (simp add: refund_request_at_def createRefund_request_def order0_def clock1_def
          payment0_def show_nat.simps digit_char_def)
  note inst = idempotency_keys_carry_timestamp
            [where api = stub_api and clk = clock0 and st = ready_state and order = order0
               and amt = 1000 and md = "[''sourceId'' \<mapsto> JStr ''cnon:card'']"
               and ?api2.0 = stub_api and ?clk2.0 = clock1 and ?st2.0 = ready_state
               and ?amt2.0 = 1000 and ?md2.0 = "[''sourceId'' \<mapsto> JStr ''cnon:card'']"
               and ?c1.0 = client0 and ?c2.0 = client0
               and ?out1.0 = "\<lparr>returned = Inr authorized0, state_after = cached_state,
                                calls = [PaymentsCreate client0 (request_at clock0)]\<rparr>"
               and ?out2.0 = "\<lparr>returned = Inr authorized0, state_after = cached_state,
                                calls = [PaymentsCreate client0 (request_at clock1)]\<rparr>"
               and input = input0 and ramt = 500 and pay = payment0
               and ?input2.0 = input0 and ?ramt2.0 = 500 and ?pay2.0 = payment0
               and ?rout1.0 = "\<lparr>returned = Inr (settled_at clock0), state_after = cached_state,
                                 calls = [RefundsRefundPayment client0
                                            (refund_request_at clock0)]\<rparr>"
               and ?rout2.0 = "\<lparr>returned = Inr (settled_at clock1), state_after = cached_state,
                                 calls = [RefundsRefundPayment client0
                                            (refund_request_at clock1)]\<rparr>"]
  have a: "idempotencyKey (request_at clock0) \<noteq> idempotencyKey (request_at clock1)"
    by (rule inst [THEN conjunct2, THEN conjunct2, THEN conjunct2, THEN conjunct2,
                   THEN conjunct1, rule_format])
       (simp add: stub_createPayment d)
  have b: "refund_idempotencyKey (refund_request_at clock0) \<noteq>
           refund_idempotencyKey (refund_request_at clock1)"
    by (rule inst [THEN conjunct2, THEN conjunct2, THEN conjunct2, THEN conjunct2,
                   THEN conjunct2, rule_format])
       (simp add: stub_createRefund d)
  from a b stub_createPayment [of clock0] stub_createPayment [of clock1]
       stub_createRefund [of clock0] stub_createRefund [of clock1] k0 k1 r0 r1
  show ?thesis by simp
qed

section \<open>The cached client\<close>

lemma getSquareClient_n_cached:
  "squareClient s = Some c \<Longrightarrow> getSquareClient_n n s = (replicate n (Inr c), s)"
  by (induction n) (simp_all add: getSquareClient_def)

text \<open>
  Claim C8. After \<open>setSquareOptions\<close> the first access constructs a client from the
  stored credentials (production endpoint exactly when the stored environment is the
  string \<open>production\<close>, sandbox otherwise); this and every further access return that
  same object, and the number of constructed clients has grown by one however many
  accesses are made. A later \<open>setSquareOptions\<close> replaces the credentials and empties
  the cache, and the next access constructs a new object, distinct from the old one, from
  the new credentials, which is again the one returned from then on.
\<close>

theorem client_accessor_caches:
  "let c = \<lparr>client_ref = constructed st, token = accessToken options,
            client_environment =
              (if environment options = ''production'' then Production else Sandbox)\<rparr>;
       stored = setSquareOptions options st;
       cached = \<lparr>squareOptions = Some options, squareClient = Some c,
                 constructed = Suc (constructed st)\<rparr>;
       c' = \<lparr>client_ref = Suc (constructed st), token = accessToken options',
             client_environment =
               (if environment options' = ''production'' then Production else Sandbox)\<rparr>;
       stored' = setSquareOptions options' cached;
       cached' = \<lparr>squareOptions = Some options', squareClient = Some c',
                  constructed = Suc (Suc (constructed st))\<rparr>
   in getSquareClient stored = Inr (c, cached) \<and>
      getSquareClient_n (Suc n) stored = (replicate (Suc n) (Inr c), cached) \<and>
      squareOptions stored' = Some options' \<and> squareClient stored' = None \<and>
      getSquareClient stored' = Inr (c', cached') \<and>
      getSquareClient_n (Suc m) stored' = (replicate (Suc m) (Inr c'), cached') \<and>
      client_ref c' \<noteq> client_ref c"
proof -
  have a: "getSquareClient (setSquareOptions opts s) =
      Inr (\<lparr>client_ref = constructed s, token = accessToken opts,
             client_environment =
               (if environment opts = ''production'' then Production else Sandbox)\<rparr>,
           \<lparr>squareOptions = Some opts,
            squareClient = Some \<lparr>client_ref = constructed s, token = accessToken opts,
              client_environment =
                (if environment opts = ''production'' then Production else Sandbox)\<rparr>,
            constructed = Suc (constructed s)\<rparr>)" for opts s
    by (simp add: getSquareClient_def getSquareOptions_def setSquareOptions_def Let_def)
  have b: "getSquareClient_n (Suc k) (setSquareOptions opts s) =
      (replicate (Suc k) (Inr \<lparr>client_ref = constructed s, token = accessToken opts,
             client_environment =
               (if environment opts = ''production'' then Production else Sandbox)\<rparr>),
       \<lparr>squareOptions = Some opts,
        squareClient = Some \<lparr>client_ref = constructed s, token = accessToken opts,
          client_environment =
            (if environment opts = ''production'' then Production else Sandbox)\<rparr>,
        constructed = Suc (constructed s)\<rparr>)" for opts s k
    by (simp only: getSquareClient_n.simps a sum.case prod.case)
       (simp add: getSquareClient_n_cached)
  have c: "squareOptions (setSquareOptions opts s) = Some opts \<and>
           squareClient (setSquareOptions opts s) = None" for opts s
    by (simp add: setSquareOptions_def)
  show ?thesis
    unfolding Let_def by (simp only: a b c) simp
qed

theorem client_accessor_caches_witness:
  "getSquareClient_n (Suc 2) (setSquareOptions opts0 initial_state) =
     (replicate (Suc 2) (Inr client0), cached_state) \<and>
   getSquareClient_n (Suc 1) (setSquareOptions opts1 cached_state) =
     (replicate (Suc 1)
        (Inr \<lparr>client_ref = 1, token = ''live-tok'', client_environment = Production\<rparr>),
      \<lparr>squareOptions = Some opts1,
       squareClient = Some \<lparr>client_ref = 1, token = ''live-tok'',
                             client_environment = Production\<rparr>,
       constructed = 2\<rparr>)"
  using client_accessor_caches [of initial_state opts0 opts1 2 1]
  by (simp add: Let_def initial_state_def opts0_def opts1_def client0_def cached_state_def
        numeral_2_eq_2 del: getSquareClient_n.simps replicate.simps)

end
